theory Spec2Isabelle
  imports Complex_Main
begin

section \<open>Literal values\<close>

text \<open>
  The lexer of \<open>main.py\<close> produces four kinds of literal: a \<open>str\<close> (STRING), an \<open>int\<close>
  or a \<open>float\<close> (NUMBER) and a \<open>bool\<close> (TRUE, FALSE); \<open>null\<close> is Python's \<open>None\<close> and
  is the \<open>None\<close> of \<open>lit option\<close> below. A float is kept by its exact value; the
  lexer can produce the two infinities (\<open>1e999\<close>) but no NaN.
\<close>

datatype pyfloat = Finite rat | PosInf | NegInf

datatype lit = LStr string | LInt int | LBool bool | LFloat pyfloat

text \<open>
  Python compares numbers by value across \<open>bool\<close>, \<open>int\<close> and \<open>float\<close>
  (\<open>True == 1\<close>, \<open>1 == 1.0\<close>); a string equals strings only.
\<close>

fun num_of :: "lit \<Rightarrow> pyfloat option" where
  "num_of (LStr s) = None"
| "num_of (LInt i) = Some (Finite (of_int i))"
| "num_of (LBool b) = Some (Finite (if b then 1 else 0))"
| "num_of (LFloat f) = Some f"

definition py_ne :: "lit \<Rightarrow> lit \<Rightarrow> bool" where
  "py_ne a b =
     (case num_of a of
        None \<Rightarrow> (case num_of b of None \<Rightarrow> a \<noteq> b | Some y \<Rightarrow> True)
      | Some x \<Rightarrow> (case num_of b of None \<Rightarrow> True | Some y \<Rightarrow> x \<noteq> y))"

section \<open>Errors\<close>

text \<open>
  Every \<open>raise\<close> of the source is a constructor. \<open>AttributeError\<close> is what Python raises
  when a method reads a field its argument's class does not have (\<open>ListNode\<close> has no
  \<open>type\<close>, only \<open>ValueNode\<close> has \<open>value\<close>); it is not a \<open>TypeError\<close>, so the handler in
  \<open>p_members_multiple\<close> does not catch it.
\<close>

datatype error =
    ValueMismatch "string option" lit lit
  | TypeMismatch "string option" string string
  | OtypeTypeMismatch "string option" string string
  | AttributeError string
  | ArrayElementClass
  | ArrayElementType
  | InvalidSnippet "lit option"
  | AtAttribute string error
  | SyntaxError
  | KeyError
  | RuntimeError

fun is_TypeError :: "error \<Rightarrow> bool" where
  "is_TypeError (AttributeError a) = False"
| "is_TypeError SyntaxError = False"
| "is_TypeError KeyError = False"
| "is_TypeError RuntimeError = False"
| "is_TypeError e = True"

section \<open>Objects and the store\<close>

text \<open>
  The three node classes. Nodes are mutable objects that the parser shares between the
  tree under construction and the registry, so a node is an object in a store and the
  fields that hold nodes hold addresses. An attribute dictionary is an association list
  in insertion order.
\<close>

type_synonym addr = nat

datatype obj =
    ValueNode (vtype: "string option") (val: "lit option") (vnullable: bool)
      (key: "string option")
  | TypeNode (ttype: string) (attributes: "(string \<times> addr) list") (tnullable: bool)
      (otype: "string option") (snippet: bool) (ref: "string option")
  | ListNode (element_type: "addr option") (lnullable: bool)

type_synonym heap = "obj list"

definition rd :: "heap \<Rightarrow> addr \<Rightarrow> obj option" where
  "rd h a = (if a < length h then Some (h ! a) else None)"

definition alloc :: "heap \<Rightarrow> obj \<Rightarrow> heap \<times> addr" where
  "alloc h x = (h @ [x], length h)"

fun nullable_of :: "obj \<Rightarrow> bool" where
  "nullable_of (ValueNode t v n k) = n"
| "nullable_of (TypeNode t ats n ot sn rf) = n"
| "nullable_of (ListNode et n) = n"

fun with_nullable :: "bool \<Rightarrow> obj \<Rightarrow> obj" where
  "with_nullable b (ValueNode t v n k) = ValueNode t v b k"
| "with_nullable b (TypeNode t ats n ot sn rf) = TypeNode t ats b ot sn rf"
| "with_nullable b (ListNode et n) = ListNode et b"

text \<open>\<open>x.nullable = True\<close> on the object at an address.\<close>

definition set_nullable :: "heap \<Rightarrow> addr \<Rightarrow> heap option" where
  "set_nullable h a =
     (case rd h a of None \<Rightarrow> None | Some x \<Rightarrow> Some (h[a := with_nullable True x]))"

text \<open>\<open>x.type\<close> and \<open>x.value\<close> read on an object of any of the three classes.\<close>

fun get_type :: "obj \<Rightarrow> error + string option" where
  "get_type (ValueNode t v n k) = Inr t"
| "get_type (TypeNode t ats n ot sn rf) = Inr (Some t)"
| "get_type (ListNode et n) = Inl (AttributeError ''type'')"

fun get_value :: "obj \<Rightarrow> error + lit option" where
  "get_value (ValueNode t v n k) = Inr v"
| "get_value (TypeNode t ats n ot sn rf) = Inl (AttributeError ''value'')"
| "get_value (ListNode et n) = Inl (AttributeError ''value'')"

text \<open>
  A computation returns \<open>None\<close> when it has no result in the model (the fuel of a
  recursion is used up, an address is not in the store or holds an object of a class the
  method is not defined on, or an \<open>otype\<close> is not a string as its annotation says),
  \<open>Some (Inl e)\<close> when the source raises \<open>e\<close>, and \<open>Some (Inr x)\<close> when it returns \<open>x\<close>.
\<close>

type_synonym 'a res = "(error + 'a) option"

definition bnd :: "'a res \<Rightarrow> ('a \<Rightarrow> 'b res) \<Rightarrow> 'b res" where
  "bnd m f = (case m of None \<Rightarrow> None | Some (Inl e) \<Rightarrow> Some (Inl e) | Some (Inr x) \<Rightarrow> f x)"

section \<open>\<open>ValueNode.merge\<close>\<close>

text \<open>
  Lines 77 to 80: the check of the identity attributes. \<open>other.value\<close> is read only
  when \<open>self.value\<close> is not \<open>None\<close> (\<open>and\<close> is short-circuit).
\<close>

definition identity_check :: "string option \<Rightarrow> lit option \<Rightarrow> obj \<Rightarrow> error + unit" where
  "identity_check k v other =
     (if k = Some ''otype'' \<or> k = Some ''snippet'' then
        (case v of
           None \<Rightarrow> Inr ()
         | Some sv \<Rightarrow>
             (case get_value other of
                Inl e \<Rightarrow> Inl e
              | Inr None \<Rightarrow> Inr ()
              | Inr (Some ov) \<Rightarrow> if py_ne sv ov then Inl (ValueMismatch k sv ov) else Inr ()))
      else Inr ())"

text \<open>
  Lines 72 to 86. The result is the store after the call and the address returned
  (\<open>self\<close> or \<open>other\<close>).
\<close>

definition ValueNode_merge :: "heap \<Rightarrow> addr \<Rightarrow> addr \<Rightarrow> (heap \<times> addr) res" where
  "ValueNode_merge h self other =
     (case rd h self of
        Some (ValueNode t v n k) \<Rightarrow>
          (case t of
             None \<Rightarrow>
               (case set_nullable h other of None \<Rightarrow> None | Some h' \<Rightarrow> Some (Inr (h', other)))
           | Some st \<Rightarrow>
               (case rd h other of
                  None \<Rightarrow> None
                | Some oo \<Rightarrow>
                    (case identity_check k v oo of
                       Inl e \<Rightarrow> Some (Inl e)
                     | Inr u \<Rightarrow>
                         (case get_type oo of
                            Inl e \<Rightarrow> Some (Inl e)
                          | Inr None \<Rightarrow> Some (Inr (h[self := ValueNode t v True k], self))
                          | Inr (Some ot) \<Rightarrow>
                              if st \<noteq> ot then Some (Inl (TypeMismatch k st ot))
                              else Some (Inr (h, self))))))
      | _ \<Rightarrow> None)"

section \<open>Dictionaries\<close>

text \<open>
  \<open>d[k] = v\<close> on an insertion-ordered dictionary: an existing key keeps its place, a
  new key goes to the end. \<open>d.get(k)\<close> is \<open>map_of d k\<close>.
\<close>

fun dict_set :: "('k \<times> 'v) list \<Rightarrow> 'k \<Rightarrow> 'v \<Rightarrow> ('k \<times> 'v) list" where
  "dict_set [] k v = [(k, v)]"
| "dict_set ((k', v') # d) k v = (if k' = k then (k, v) # d else (k', v') # dict_set d k v)"

definition has_key :: "('k \<times> 'v) list \<Rightarrow> 'k \<Rightarrow> bool" where
  "has_key d k = (map_of d k \<noteq> None)"

section \<open>\<open>TypeNode.merge\<close> and \<open>ListNode.merge\<close>\<close>

fun get_otype :: "obj \<Rightarrow> error + string option" where
  "get_otype (ValueNode t v n k) = Inl (AttributeError ''otype'')"
| "get_otype (TypeNode t ats n ot sn rf) = Inr ot"
| "get_otype (ListNode et n) = Inl (AttributeError ''otype'')"

fun get_attributes :: "obj \<Rightarrow> error + (string \<times> addr) list" where
  "get_attributes (ValueNode t v n k) = Inl (AttributeError ''attributes'')"
| "get_attributes (TypeNode t ats n ot sn rf) = Inr ats"
| "get_attributes (ListNode et n) = Inl (AttributeError ''attributes'')"

fun get_element_type :: "obj \<Rightarrow> error + addr option" where
  "get_element_type (ValueNode t v n k) = Inl (AttributeError ''element_type'')"
| "get_element_type (TypeNode t ats n ot sn rf) = Inl (AttributeError ''element_type'')"
| "get_element_type (ListNode et n) = Inr et"

text \<open>
  Lines 123 to 125: every attribute of \<open>self\<close> whose key \<open>other\<close> lacks becomes
  nullable.
\<close>

fun mark_missing :: "heap \<Rightarrow> (string \<times> addr) list \<Rightarrow> (string \<times> addr) list \<Rightarrow> heap option" where
  "mark_missing h [] oats = Some h"
| "mark_missing h ((k, a) # rest) oats =
     (if has_key oats k then mark_missing h rest oats
      else (case set_nullable h a of None \<Rightarrow> None | Some h' \<Rightarrow> mark_missing h' rest oats))"

text \<open>\<open>self.attributes[k] = a\<close> on the \<open>TypeNode\<close> at \<open>self\<close>.\<close>

definition set_attribute :: "heap \<Rightarrow> addr \<Rightarrow> string \<Rightarrow> addr \<Rightarrow> heap option" where
  "set_attribute h self k a =
     (case rd h self of
        Some (TypeNode ty ats nl ot sn rf) \<Rightarrow>
          Some (h[self := TypeNode ty (dict_set ats k a) nl ot sn rf])
      | _ \<Rightarrow> None)"

text \<open>
  Line 167, \<open>self.element_type is not ListNode\<close>, compares the element type with the
  class object \<open>ListNode\<close> by identity. An element type is \<open>None\<close> or a node, never the
  class, so the test holds for every element type and line 168 always returns.
\<close>

definition is_not_ListNode_class :: "addr option \<Rightarrow> bool" where
  "is_not_ListNode_class et = True"

text \<open>
  Lines 113 to 125 of \<open>TypeNode.merge\<close>, up to the loop over \<open>other.attributes\<close>:
  \<open>Inl r\<close> when the method has returned or raised by then, \<open>Inr (h, oats)\<close> when the
  loop of lines 127 to 132 is to run over the items \<open>oats\<close> in the store \<open>h\<close>. The
  warning printed at line 121 is not part of the model; reading \<open>other.otype\<close> for it
  is, since it raises when \<open>other\<close> is a \<open>ValueNode\<close>.
\<close>

definition TypeNode_merge_head ::
  "heap \<Rightarrow> addr \<Rightarrow> addr \<Rightarrow> (heap \<times> addr) res + heap \<times> (string \<times> addr) list" where
  "TypeNode_merge_head h self other =
     (case rd h self of
        Some (TypeNode ty ats nl ot sn rf) \<Rightarrow>
          (case rd h other of
             None \<Rightarrow> Inl None
           | Some oo \<Rightarrow>
               (let h1 = h[self := TypeNode ty ats (nl \<or> nullable_of oo) ot sn rf] in
                case rd h1 other of
                  None \<Rightarrow> Inl None
                | Some oo1 \<Rightarrow>
                    (case get_type oo1 of
                       Inl e \<Rightarrow> Inl (Some (Inl e))
                     | Inr None \<Rightarrow> Inl (Some (Inr (h1, self)))
                     | Inr (Some oty) \<Rightarrow>
                         if ty \<noteq> oty then Inl (Some (Inl (OtypeTypeMismatch ot ty oty)))
                         else
                           (case get_otype oo1 of
                              Inl e \<Rightarrow> Inl (Some (Inl e))
                            | Inr oot \<Rightarrow>
                                (case get_attributes oo1 of
                                   Inl e \<Rightarrow> Inl (Some (Inl e))
                                 | Inr oats \<Rightarrow>
                                     (case mark_missing h1 ats oats of
                                        None \<Rightarrow> Inl None
                                      | Some h2 \<Rightarrow> Inr (h2, oats)))))))
      | _ \<Rightarrow> Inl None)"

text \<open>
  Lines 166 to 171 of \<open>ListNode.merge\<close>: \<open>Inl r\<close> when the method has returned or
  raised without a recursive call, \<open>Inr (h, se, oe)\<close> when line 172 is to merge the two
  element types \<open>se\<close> and \<open>oe\<close> in the store \<open>h\<close>.
\<close>

definition ListNode_merge_head ::
  "heap \<Rightarrow> addr \<Rightarrow> addr \<Rightarrow> (heap \<times> addr) res + heap \<times> addr \<times> addr" where
  "ListNode_merge_head h self other =
     (case rd h self of
        Some (ListNode et nl) \<Rightarrow>
          (case rd h other of
             None \<Rightarrow> Inl None
           | Some oo \<Rightarrow>
               (let h1 = h[self := ListNode et (nl \<or> nullable_of oo)] in
                if is_not_ListNode_class et then Inl (Some (Inr (h1, self)))
                else
                  (case et of
                     None \<Rightarrow>
                       (case rd h1 other of
                          None \<Rightarrow> Inl None
                        | Some oo1 \<Rightarrow>
                            (case get_element_type oo1 of
                               Inl e \<Rightarrow> Inl (Some (Inl e))
                             | Inr oet \<Rightarrow>
                                 Inl (Some (Inr (h1[self := ListNode oet (nl \<or> nullable_of oo)],
                                   self)))))
                   | Some se \<Rightarrow>
                       (case rd h1 other of
                          None \<Rightarrow> Inl None
                        | Some oo1 \<Rightarrow>
                            (case get_element_type oo1 of
                               Inl e \<Rightarrow> Inl (Some (Inl e))
                             | Inr None \<Rightarrow> Inl (Some (Inr (h1, self)))
                             | Inr (Some oe) \<Rightarrow> Inr (h1, se, oe))))))
      | _ \<Rightarrow> Inl None)"

text \<open>\<open>self.element_type = r\<close> on the \<open>ListNode\<close> at \<open>self\<close>.\<close>

definition set_element_type :: "heap \<Rightarrow> addr \<Rightarrow> addr \<Rightarrow> heap option" where
  "set_element_type h self r =
     (case rd h self of
        Some (ListNode et nl) \<Rightarrow> Some (h[self := ListNode (Some r) nl])
      | _ \<Rightarrow> None)"

text \<open>\<open>self.attributes.get(k)\<close> on the \<open>TypeNode\<close> at \<open>self\<close>.\<close>

definition attribute_at :: "heap \<Rightarrow> addr \<Rightarrow> string \<Rightarrow> addr option option" where
  "attribute_at h self k =
     (case rd h self of
        Some (TypeNode ty ats nl ot sn rf) \<Rightarrow> Some (map_of ats k)
      | _ \<Rightarrow> None)"

text \<open>
  \<open>merge\<close> is the call \<open>x.merge(y)\<close>, dispatched on the class of \<open>x\<close>; each call
  uses one unit of fuel. \<open>merge_attributes\<close> is the loop of lines 127 to 132 over
  \<open>other.attributes.items()\<close>, with \<open>i\<close> the position the iterator has reached and
  \<open>r\<close> the number of items it has still to give. The iterator is a view of the
  dictionary, not a copy: at every step it reads the dictionary of \<open>other\<close> from the
  store, raises \<open>RuntimeError\<close> when its size is no longer the size at the start of the
  loop (a nested merge has added a key), and otherwise gives the item now at position
  \<open>i\<close>. No statement of the source removes a key from a dictionary, so the items keep
  their positions. \<open>self.attributes\<close> is read from the store at every step too.
\<close>

function (sequential) merge :: "nat \<Rightarrow> heap \<Rightarrow> addr \<Rightarrow> addr \<Rightarrow> (heap \<times> addr) res"
and TypeNode_merge :: "nat \<Rightarrow> heap \<Rightarrow> addr \<Rightarrow> addr \<Rightarrow> (heap \<times> addr) res"
and merge_attributes :: "nat \<Rightarrow> heap \<Rightarrow> addr \<Rightarrow> addr \<Rightarrow> nat \<Rightarrow> nat \<Rightarrow> heap res"
and ListNode_merge :: "nat \<Rightarrow> heap \<Rightarrow> addr \<Rightarrow> addr \<Rightarrow> (heap \<times> addr) res"
where
  "merge 0 h self other = None"
| "merge (Suc n) h self other =
     (case rd h self of
        None \<Rightarrow> None
      | Some (ValueNode t v nl k) \<Rightarrow> ValueNode_merge h self other
      | Some (TypeNode ty ats nl ot sn rf) \<Rightarrow> TypeNode_merge n h self other
      | Some (ListNode et nl) \<Rightarrow> ListNode_merge n h self other)"
| "TypeNode_merge n h self other =
     (case TypeNode_merge_head h self other of
        Inl r \<Rightarrow> r
      | Inr (h2, oats) \<Rightarrow>
          bnd (merge_attributes n h2 self other 0 (length oats))
            (\<lambda>h3. Some (Inr (h3, self))))"
| "merge_attributes n h self other i 0 =
     (case rd h other of
        Some (TypeNode oty oats onl oot osn orf) \<Rightarrow>
          if length oats \<noteq> i then Some (Inl RuntimeError) else Some (Inr h)
      | _ \<Rightarrow> None)"
| "merge_attributes n h self other i (Suc r) =
     (case rd h other of
        Some (TypeNode oty oats onl oot osn orf) \<Rightarrow>
          if length oats \<noteq> i + Suc r then Some (Inl RuntimeError)
          else
            (case oats ! i of
               (k, a) \<Rightarrow>
                 (case attribute_at h self k of
                    None \<Rightarrow> None
                  | Some (Some sa) \<Rightarrow>
                      bnd (merge n h sa a)
                        (\<lambda>(h', m). case set_attribute h' self k m of
                                     None \<Rightarrow> None
                                   | Some h'' \<Rightarrow> merge_attributes n h'' self other (Suc i) r)
                  | Some None \<Rightarrow>
                      (case set_nullable h a of
                         None \<Rightarrow> None
                       | Some h' \<Rightarrow>
                           (case set_attribute h' self k a of
                              None \<Rightarrow> None
                            | Some h'' \<Rightarrow> merge_attributes n h'' self other (Suc i) r))))
      | _ \<Rightarrow> None)"
| "ListNode_merge n h self other =
     (case ListNode_merge_head h self other of
        Inl r \<Rightarrow> r
      | Inr (h1, se, oe) \<Rightarrow>
          bnd (merge n h1 se oe)
            (\<lambda>(h2, m). case set_element_type h2 self m of
                         None \<Rightarrow> None
                       | Some h3 \<Rightarrow> Some (Inr (h3, self))))"
  by pat_completeness auto
termination
  by (relation "inv_image (less_than <*lex*> less_than <*lex*> less_than)
        (\<lambda>x. case x of
           Inl (Inl (n, h, s, ot)) \<Rightarrow> (n, 0, 0)
         | Inl (Inr (n, h, s, ot)) \<Rightarrow> (n, 2, 0)
         | Inr (Inl (n, h, s, ot, i, r)) \<Rightarrow> (n, 1, r)
         | Inr (Inr (n, h, s, ot)) \<Rightarrow> (n, 1, 0))") auto

section \<open>The type registry\<close>

text \<open>
  A key is \<open>(otype, snippet)\<close>. \<open>register_type\<close> is annotated with \<open>otype: str\<close>, but
  \<open>p_member\<close> calls it with the \<open>otype\<close> of a node that has none, so a key holds an
  optional string; the f-string of line 207 prints \<open>None\<close> as \<open>None\<close>.
\<close>

type_synonym rkey = "string option \<times> bool"

record TypeRegistry =
  types :: "(rkey \<times> addr) list"
  type_names :: "(rkey \<times> string) list"

text \<open>Lines 238 and 239: the one registry of the module, created when it is loaded.\<close>

definition type_registry :: TypeRegistry where
  "type_registry = \<lparr>types = [], type_names = []\<rparr>"

definition fmt_otype :: "string option \<Rightarrow> string" where
  "fmt_otype ot = (case ot of None \<Rightarrow> ''None'' | Some s \<Rightarrow> s)"

definition register_type ::
  "nat \<Rightarrow> heap \<Rightarrow> TypeRegistry \<Rightarrow> string option \<Rightarrow> bool \<Rightarrow> addr \<Rightarrow> (heap \<times> TypeRegistry) res" where
  "register_type n h reg ot sn type_node =
     (let snippet_append = (if sn then ''_snippet'' else []) in
      case map_of (types reg) (ot, sn) of
        Some entry \<Rightarrow> bnd (merge n h entry type_node) (\<lambda>(h', r). Some (Inr (h', reg)))
      | None \<Rightarrow>
          Some (Inr (h, reg\<lparr>types := dict_set (types reg) (ot, sn) type_node,
                           type_names := dict_set (type_names reg) (ot, sn)
                                           (fmt_otype ot @ snippet_append)\<rparr>)))"

definition get_preferred_snippet :: "TypeRegistry \<Rightarrow> string option \<Rightarrow> bool option" where
  "get_preferred_snippet reg ot =
     (if has_key (types reg) (ot, False) then Some False
      else if has_key (types reg) (ot, True) then Some True
      else None)"

definition get_ref :: "TypeRegistry \<Rightarrow> string option \<Rightarrow> string option" where
  "get_ref reg ot =
     (case get_preferred_snippet reg ot of
        Some sn \<Rightarrow> map_of (type_names reg) (ot, sn)
      | None \<Rightarrow> None)"

section \<open>Serialization\<close>

text \<open>The values \<open>to_dict\<close> builds: \<open>None\<close>, booleans, strings and dictionaries.\<close>

datatype jv = ONone | OBool bool | OStr string | ODict "(string \<times> jv) list"

definition opt_str :: "string option \<Rightarrow> jv" where
  "opt_str x = (case x of None \<Rightarrow> ONone | Some s \<Rightarrow> OStr s)"

definition nullable_entry :: "bool \<Rightarrow> (string \<times> jv) list" where
  "nullable_entry nl = (if nl then [(''nullable'', OBool True)] else [])"

text \<open>Lines 88 to 92.\<close>

definition ValueNode_to_dict :: "string option \<Rightarrow> bool \<Rightarrow> jv" where
  "ValueNode_to_dict t nl = ODict ((''type'', opt_str t) # nullable_entry nl)"

text \<open>
  Lines 175 to 190. A nested list is serialized by the recursive call of line 186, one
  unit of fuel each. With no element type, line 189 calls \<open>to_dict\<close> on \<open>None\<close>.
\<close>

fun ListNode_to_dict :: "nat \<Rightarrow> heap \<Rightarrow> TypeRegistry \<Rightarrow> addr \<Rightarrow> jv res" where
  "ListNode_to_dict 0 h reg a = None"
| "ListNode_to_dict (Suc n) h reg a =
     (case rd h a of
        Some (ListNode et nl) \<Rightarrow>
          (case et of
             None \<Rightarrow> Some (Inl (AttributeError ''to_dict''))
           | Some e \<Rightarrow>
               (case rd h e of
                  None \<Rightarrow> None
                | Some (TypeNode ty ats enl ot sn rf) \<Rightarrow>
                    Some (Inr (ODict ((''type'', OStr ''array'') # nullable_entry nl @
                      [(''element'', ODict [(''ref'', opt_str (get_ref reg ot))])])))
                | Some (ListNode eet enl) \<Rightarrow>
                    bnd (ListNode_to_dict n h reg e)
                      (\<lambda>j. Some (Inr (ODict ((''type'', OStr ''array'') # nullable_entry nl @
                         [(''element'', j)]))))
                | Some (ValueNode t v enl k) \<Rightarrow>
                    Some (Inr (ODict ((''type'', OStr ''array'') # nullable_entry nl @
                      [(''element'', ValueNode_to_dict t enl)])))))
      | _ \<Rightarrow> None)"

text \<open>Lines 145 to 156: one attribute of a \<open>TypeNode\<close>.\<close>

definition attribute_to_dict :: "nat \<Rightarrow> heap \<Rightarrow> TypeRegistry \<Rightarrow> addr \<Rightarrow> jv res" where
  "attribute_to_dict n h reg a =
     (case rd h a of
        None \<Rightarrow> None
      | Some (TypeNode ty ats nl ot sn rf) \<Rightarrow>
          Some (Inr (ODict ((''ref'', opt_str (get_ref reg ot)) # nullable_entry nl)))
      | Some (ListNode et nl) \<Rightarrow> ListNode_to_dict n h reg a
      | Some (ValueNode t v nl k) \<Rightarrow> Some (Inr (ValueNode_to_dict t nl)))"

fun attributes_to_dict ::
  "nat \<Rightarrow> heap \<Rightarrow> TypeRegistry \<Rightarrow> (string \<times> addr) list \<Rightarrow> (string \<times> jv) list
     \<Rightarrow> (string \<times> jv) list res" where
  "attributes_to_dict n h reg [] acc = Some (Inr acc)"
| "attributes_to_dict n h reg ((k, a) # rest) acc =
     bnd (attribute_to_dict n h reg a)
       (\<lambda>j. attributes_to_dict n h reg rest (dict_set acc k j))"

text \<open>Lines 135 to 157.\<close>

definition TypeNode_to_dict :: "nat \<Rightarrow> heap \<Rightarrow> TypeRegistry \<Rightarrow> addr \<Rightarrow> jv res" where
  "TypeNode_to_dict n h reg a =
     (case rd h a of
        Some (TypeNode ty ats nl ot sn rf) \<Rightarrow>
          (let result = [(''type'', OStr ty), (''otype'', opt_str ot), (''snippet'', OBool sn)]
                          @ nullable_entry nl in
           if ats = [] then Some (Inr (ODict result))
           else bnd (attributes_to_dict n h reg ats [])
                  (\<lambda>d. Some (Inr (ODict (result @ [(''attributes'', ODict d)])))))
      | _ \<Rightarrow> None)"

text \<open>
  Lines 231 to 236: \<open>output[type_name] = ...\<close> for every item of \<open>types\<close>, in
  insertion order.
\<close>

fun types_to_dict ::
  "nat \<Rightarrow> heap \<Rightarrow> TypeRegistry \<Rightarrow> (rkey \<times> addr) list \<Rightarrow> (string \<times> jv) list
     \<Rightarrow> (string \<times> jv) list res" where
  "types_to_dict n h reg [] output = Some (Inr output)"
| "types_to_dict n h reg ((k, a) # rest) output =
     (case map_of (type_names reg) k of
        None \<Rightarrow> Some (Inl KeyError)
      | Some type_name \<Rightarrow>
          bnd (TypeNode_to_dict n h reg a)
            (\<lambda>j. types_to_dict n h reg rest (dict_set output type_name j)))"

definition to_dict :: "nat \<Rightarrow> heap \<Rightarrow> TypeRegistry \<Rightarrow> (string \<times> jv) list res" where
  "to_dict n h reg = types_to_dict n h reg (types reg) []"

section \<open>The grammar's actions\<close>

text \<open>
  A parsed document, as the lexer and the grammar deliver it: the tokens' values (a
  STRING without its quotes, a NUMBER as \<open>int\<close> or \<open>float\<close>) in the shape of the
  grammar. The grammar has no empty \<open>elements\<close> and no empty \<open>members\<close>, so the parser
  rejects \<open>[]\<close> and \<open>{}\<close> with a syntax error.
\<close>

datatype json =
    JString string
  | JInt int
  | JFloat pyfloat
  | JTrue
  | JFalse
  | JNull
  | JObject "(string \<times> json) list"
  | JArray "json list"

text \<open>
  Line 284: the pattern \<open>\d{4}-\d{2}-\d{2}\<close>, matched against the whole string. The
  digits are the ASCII digits here.
\<close>

definition is_digit :: "char \<Rightarrow> bool" where
  "is_digit c = (c \<in> set ''0123456789'')"

definition is_date :: "string \<Rightarrow> bool" where
  "is_date s =
     (case s of
        [y1, y2, y3, y4, d1, m1, m2, d2, t1, t2] \<Rightarrow>
          is_digit y1 \<and> is_digit y2 \<and> is_digit y3 \<and> is_digit y4 \<and> d1 = CHR ''-'' \<and>
          is_digit m1 \<and> is_digit m2 \<and> d2 = CHR ''-'' \<and> is_digit t1 \<and> is_digit t2
      | _ \<Rightarrow> False)"

text \<open>Lines 281 to 307: the scalar values.\<close>

definition p_value_string :: "heap \<Rightarrow> string \<Rightarrow> heap \<times> addr" where
  "p_value_string h s =
     (if is_date s then alloc h (ValueNode (Some ''date'') (Some (LStr s)) False None)
      else alloc h (ValueNode (Some ''string'') (Some (LStr s)) False None))"

definition p_value_number :: "heap \<Rightarrow> lit \<Rightarrow> heap \<times> addr" where
  "p_value_number h v =
     (case v of
        LInt i \<Rightarrow> alloc h (ValueNode (Some ''int'') (Some v) False None)
      | _ \<Rightarrow> alloc h (ValueNode (Some ''float'') (Some v) False None))"

definition p_value_true :: "heap \<Rightarrow> heap \<times> addr" where
  "p_value_true h = alloc h (ValueNode (Some ''bool'') (Some (LBool True)) False None)"

definition p_value_false :: "heap \<Rightarrow> heap \<times> addr" where
  "p_value_false h = alloc h (ValueNode (Some ''bool'') (Some (LBool False)) False None)"

definition p_value_null :: "heap \<Rightarrow> heap \<times> addr" where
  "p_value_null h = alloc h (ValueNode None None True None)"

text \<open>
  Lines 263 to 268. \<open>type(elem) != type(first_element)\<close> compares the classes;
  \<open>hasattr(x, 'type')\<close> holds for a \<open>ValueNode\<close> and a \<open>TypeNode\<close>, not for a
  \<open>ListNode\<close>.
\<close>

datatype cls = CValueNode | CTypeNode | CListNode

fun class_of :: "obj \<Rightarrow> cls" where
  "class_of (ValueNode t v n k) = CValueNode"
| "class_of (TypeNode t ats n ot sn rf) = CTypeNode"
| "class_of (ListNode et n) = CListNode"

fun hasattr_type :: "obj \<Rightarrow> bool" where
  "hasattr_type (ListNode et n) = False"
| "hasattr_type x = True"

fun type_attr :: "obj \<Rightarrow> string option" where
  "type_attr (ValueNode t v n k) = t"
| "type_attr (TypeNode t ats n ot sn rf) = Some t"
| "type_attr (ListNode et n) = None"

definition check_element :: "obj \<Rightarrow> obj \<Rightarrow> error + unit" where
  "check_element first_element elem =
     (if class_of elem \<noteq> class_of first_element then Inl ArrayElementClass
      else if hasattr_type first_element \<and> hasattr_type elem
              \<and> type_attr first_element \<noteq> type_attr elem then Inl ArrayElementType
      else Inr ())"

fun check_elements :: "heap \<Rightarrow> addr \<Rightarrow> addr list \<Rightarrow> unit res" where
  "check_elements h first_element [] = Some (Inr ())"
| "check_elements h first_element (elem # rest) =
     (case rd h first_element of
        None \<Rightarrow> None
      | Some fo \<Rightarrow>
          (case rd h elem of
             None \<Rightarrow> None
           | Some eo \<Rightarrow>
               (case check_element fo eo of
                  Inl e \<Rightarrow> Some (Inl e)
                | Inr u \<Rightarrow> check_elements h first_element rest)))"

text \<open>Lines 254 to 271.\<close>

definition p_array :: "heap \<Rightarrow> addr list \<Rightarrow> (heap \<times> addr) res" where
  "p_array h elements =
     (case elements of
        [] \<Rightarrow> Some (Inr (alloc h (ListNode None False)))
      | first_element # rest \<Rightarrow>
          bnd (check_elements h first_element rest)
            (\<lambda>u. Some (Inr (alloc h (ListNode (Some first_element) False)))))"

text \<open>\<open>if ref_type_name:\<close> holds for a string that is not empty.\<close>

definition truthy :: "string option \<Rightarrow> bool" where
  "truthy r = (case r of None \<Rightarrow> False | Some s \<Rightarrow> s \<noteq> [])"

text \<open>\<open>node.ref = r\<close> and \<open>node.attributes = {}\<close> on the \<open>TypeNode\<close> at an address.\<close>

definition set_ref :: "heap \<Rightarrow> addr \<Rightarrow> string option \<Rightarrow> heap option" where
  "set_ref h a r =
     (case rd h a of
        Some (TypeNode ty ats nl ot sn rf) \<Rightarrow> Some (h[a := TypeNode ty ats nl ot sn r])
      | _ \<Rightarrow> None)"

definition clear_attributes :: "heap \<Rightarrow> addr \<Rightarrow> heap option" where
  "clear_attributes h a =
     (case rd h a of
        Some (TypeNode ty ats nl ot sn rf) \<Rightarrow> Some (h[a := TypeNode ty [] nl ot sn rf])
      | _ \<Rightarrow> None)"

text \<open>
  Lines 374 to 378 and 387 to 391: register the node, look its name up again, set the
  reference and clear the attributes.
\<close>

definition register_and_clear ::
  "nat \<Rightarrow> heap \<Rightarrow> TypeRegistry \<Rightarrow> addr \<Rightarrow> string option \<Rightarrow> bool \<Rightarrow> (heap \<times> TypeRegistry) res" where
  "register_and_clear n h reg a ot sn =
     bnd (register_type n h reg ot sn a)
       (\<lambda>(h1, reg1).
          case set_ref h1 a (get_ref reg1 ot) of
            None \<Rightarrow> None
          | Some h2 \<Rightarrow>
              (case clear_attributes h2 a of
                 None \<Rightarrow> None
               | Some h3 \<Rightarrow> Some (Inr (h3, reg1))))"

text \<open>
  Lines 362 to 393. The result is the one-entry dictionary \<open>{key: value}\<close>. Line 385,
  which would clear the attributes of a list's element type whose name is already known,
  is commented out in the source.
\<close>

definition p_member ::
  "nat \<Rightarrow> heap \<Rightarrow> TypeRegistry \<Rightarrow> string \<Rightarrow> addr
     \<Rightarrow> (heap \<times> TypeRegistry \<times> (string \<times> addr) list) res" where
  "p_member n h reg k v =
     (case rd h v of
        None \<Rightarrow> None
      | Some (TypeNode ty ats nl ot sn rf) \<Rightarrow>
          (let ref_type_name = get_ref reg ot in
           if truthy ref_type_name then
             (case set_ref h v ref_type_name of
                None \<Rightarrow> None
              | Some h1 \<Rightarrow>
                  (case clear_attributes h1 v of
                     None \<Rightarrow> None
                   | Some h2 \<Rightarrow> Some (Inr (h2, reg, [(k, v)]))))
           else
             bnd (register_and_clear n h reg v ot sn)
               (\<lambda>(h', reg'). Some (Inr (h', reg', [(k, v)]))))
      | Some (ListNode et lnl) \<Rightarrow>
          (case et of
             None \<Rightarrow> Some (Inr (h, reg, [(k, v)]))
           | Some e \<Rightarrow>
               (case rd h e of
                  None \<Rightarrow> None
                | Some (TypeNode ty ats nl ot sn rf) \<Rightarrow>
                    (let ref_type_name = get_ref reg ot in
                     if truthy ref_type_name then
                       (case set_ref h e ref_type_name of
                          None \<Rightarrow> None
                        | Some h1 \<Rightarrow> Some (Inr (h1, reg, [(k, v)])))
                     else
                       bnd (register_and_clear n h reg e ot sn)
                         (\<lambda>(h', reg'). Some (Inr (h', reg', [(k, v)]))))
                | Some x \<Rightarrow> Some (Inr (h, reg, [(k, v)]))))
      | Some (ValueNode t vv nl kk) \<Rightarrow> Some (Inr (h, reg, [(k, v)])))"

text \<open>
  Lines 350 to 360. \<open>p0\<close> is the dictionary of the members to the right, \<open>p1\<close> the
  items of the member to the left. Only a \<open>TypeError\<close> is caught and raised again with
  the key.
\<close>

definition at_attribute :: "string \<Rightarrow> 'a res \<Rightarrow> 'a res" where
  "at_attribute k m =
     (case m of
        Some (Inl e) \<Rightarrow> if is_TypeError e then Some (Inl (AtAttribute k e)) else Some (Inl e)
      | r \<Rightarrow> r)"

fun p_members_multiple ::
  "nat \<Rightarrow> heap \<Rightarrow> (string \<times> addr) list \<Rightarrow> (string \<times> addr) list
     \<Rightarrow> (heap \<times> (string \<times> addr) list) res" where
  "p_members_multiple n h [] p0 = Some (Inr (h, p0))"
| "p_members_multiple n h ((k, v) # rest) p0 =
     (case map_of p0 k of
        Some cur \<Rightarrow>
          bnd (at_attribute k (merge n h cur v))
            (\<lambda>(h', r). p_members_multiple n h' rest (dict_set p0 k r))
      | None \<Rightarrow> p_members_multiple n h rest (dict_set p0 k v))"

text \<open>
  Lines 314 to 329. \<open>if otype_node:\<close> holds for every node, the classes define neither
  \<open>__bool__\<close> nor \<open>__len__\<close>; \<open>.value\<close> exists on a \<open>ValueNode\<close> only.
\<close>

definition otype_of_attributes :: "heap \<Rightarrow> (string \<times> addr) list \<Rightarrow> lit option res" where
  "otype_of_attributes h ats =
     (case map_of ats ''otype'' of
        None \<Rightarrow> Some (Inr None)
      | Some a \<Rightarrow>
          (case rd h a of
             None \<Rightarrow> None
           | Some x \<Rightarrow> (case get_value x of Inl e \<Rightarrow> Some (Inl e) | Inr v \<Rightarrow> Some (Inr v))))"

definition snippet_of_attributes :: "heap \<Rightarrow> (string \<times> addr) list \<Rightarrow> bool res" where
  "snippet_of_attributes h ats =
     (case map_of ats ''snippet'' of
        None \<Rightarrow> Some (Inr False)
      | Some a \<Rightarrow>
          (case rd h a of
             None \<Rightarrow> None
           | Some x \<Rightarrow>
               (case get_value x of
                  Inl e \<Rightarrow> Some (Inl e)
                | Inr (Some (LBool b)) \<Rightarrow> Some (Inr b)
                | Inr v \<Rightarrow> Some (Inl (InvalidSnippet v)))))"

text \<open>
  Lines 309 to 344. An \<open>otype\<close> whose literal is not a string is outside the model
  (its annotation is \<open>Optional[str]\<close>): no result.
\<close>

definition p_object ::
  "nat \<Rightarrow> heap \<Rightarrow> TypeRegistry \<Rightarrow> (string \<times> addr) list \<Rightarrow> (heap \<times> TypeRegistry \<times> addr) res" where
  "p_object n h reg ats =
     bnd (otype_of_attributes h ats)
       (\<lambda>ov. bnd (snippet_of_attributes h ats)
          (\<lambda>sn. case ov of
             None \<Rightarrow>
               (case alloc h (TypeNode ''object'' ats False None sn None) of
                  (h1, a) \<Rightarrow> Some (Inr (h1, reg, a)))
           | Some (LStr s) \<Rightarrow>
               (case alloc h (TypeNode ''object'' ats False (Some s) sn None) of
                  (h1, a) \<Rightarrow>
                    bnd (register_type n h1 reg (Some s) sn a)
                      (\<lambda>(h2, reg2). Some (Inr (h2, reg2, a))))
           | Some x \<Rightarrow> None))"

section \<open>Parsing a document and the run\<close>

text \<open>
  The actions run in the order in which the LALR parser reduces: a value when it is
  complete, the members of an object from left to right (\<open>p_member\<close> of a member runs
  before the next member is read), then \<open>p_members_multiple\<close> from the right end of the
  object back to its start (the rule \<open>members : member COMMA members\<close> is right
  recursive), then \<open>p_object\<close>.
\<close>

function (sequential)
  value_sem :: "nat \<Rightarrow> heap \<Rightarrow> TypeRegistry \<Rightarrow> json \<Rightarrow> (heap \<times> TypeRegistry \<times> addr) res"
and elements_sem ::
  "nat \<Rightarrow> heap \<Rightarrow> TypeRegistry \<Rightarrow> json list \<Rightarrow> (heap \<times> TypeRegistry \<times> addr list) res"
and members_sem ::
  "nat \<Rightarrow> heap \<Rightarrow> TypeRegistry \<Rightarrow> (string \<times> json) list
     \<Rightarrow> (heap \<times> TypeRegistry \<times> (string \<times> addr) list) res"
where
  "value_sem n h reg (JString s) = (case p_value_string h s of (h1, a) \<Rightarrow> Some (Inr (h1, reg, a)))"
| "value_sem n h reg (JInt i) = (case p_value_number h (LInt i) of (h1, a) \<Rightarrow> Some (Inr (h1, reg, a)))"
| "value_sem n h reg (JFloat f) = (case p_value_number h (LFloat f) of (h1, a) \<Rightarrow> Some (Inr (h1, reg, a)))"
| "value_sem n h reg JTrue = (case p_value_true h of (h1, a) \<Rightarrow> Some (Inr (h1, reg, a)))"
| "value_sem n h reg JFalse = (case p_value_false h of (h1, a) \<Rightarrow> Some (Inr (h1, reg, a)))"
| "value_sem n h reg JNull = (case p_value_null h of (h1, a) \<Rightarrow> Some (Inr (h1, reg, a)))"
| "value_sem n h reg (JObject ms) =
     bnd (members_sem n h reg ms) (\<lambda>(h1, reg1, ats). p_object n h1 reg1 ats)"
| "value_sem n h reg (JArray es) =
     bnd (elements_sem n h reg es)
       (\<lambda>(h1, reg1, as). bnd (p_array h1 as) (\<lambda>(h2, a). Some (Inr (h2, reg1, a))))"
| "elements_sem n h reg [] = Some (Inl SyntaxError)"
| "elements_sem n h reg [e] =
     bnd (value_sem n h reg e) (\<lambda>(h1, reg1, a). Some (Inr (h1, reg1, [a])))"
| "elements_sem n h reg (e # es) =
     bnd (value_sem n h reg e)
       (\<lambda>(h1, reg1, a). bnd (elements_sem n h1 reg1 es)
          (\<lambda>(h2, reg2, as). Some (Inr (h2, reg2, a # as))))"
| "members_sem n h reg [] = Some (Inl SyntaxError)"
| "members_sem n h reg [(k, v)] =
     bnd (value_sem n h reg v) (\<lambda>(h1, reg1, a). p_member n h1 reg1 k a)"
| "members_sem n h reg ((k, v) # ms) =
     bnd (value_sem n h reg v)
       (\<lambda>(h1, reg1, a). bnd (p_member n h1 reg1 k a)
          (\<lambda>(h2, reg2, p1). bnd (members_sem n h2 reg2 ms)
             (\<lambda>(h3, reg3, p3). bnd (p_members_multiple n h3 p1 p3)
                (\<lambda>(h4, p0). Some (Inr (h4, reg3, p0))))))"
  by pat_completeness auto
termination
  by (relation "measure
        (\<lambda>x. case x of
           Inl (n, h, reg, j) \<Rightarrow> size j
         | Inr (Inl (n, h, reg, es)) \<Rightarrow> size_list size es
         | Inr (Inr (n, h, reg, ms)) \<Rightarrow> size_list (size_prod (\<lambda>k. 0) size) ms)") auto

text \<open>
  Lines 465 to 478 of \<open>main\<close>: every document is parsed, the result of the parse is
  dropped, and the registry is serialized. The store and the registry belong to the
  module, so they are the state a call starts from and leaves behind.
\<close>

fun parse_all :: "nat \<Rightarrow> heap \<Rightarrow> TypeRegistry \<Rightarrow> json list \<Rightarrow> (heap \<times> TypeRegistry) res" where
  "parse_all n h reg [] = Some (Inr (h, reg))"
| "parse_all n h reg (d # ds) =
     bnd (value_sem n h reg d) (\<lambda>(h1, reg1, a). parse_all n h1 reg1 ds)"

definition main ::
  "nat \<Rightarrow> heap \<Rightarrow> TypeRegistry \<Rightarrow> json list \<Rightarrow> (heap \<times> TypeRegistry \<times> (string \<times> jv) list) res" where
  "main n h reg data_list =
     bnd (parse_all n h reg data_list)
       (\<lambda>(h1, reg1). bnd (to_dict n h1 reg1) (\<lambda>out. Some (Inr (h1, reg1, out))))"

section \<open>Sequences of registrations\<close>

text \<open>
  A run reaches the registry through \<open>register_type\<close> only. \<open>register_all\<close> is a
  sequence of such calls, each made in the store of its moment (the parser allocates and
  updates nodes between two calls); \<open>call_key\<close> is the key a call registers at, and
  \<open>call_node\<close> its node.
\<close>

type_synonym call = "heap \<times> string option \<times> bool \<times> addr"

definition call_key :: "call \<Rightarrow> rkey" where
  "call_key c = (fst (snd c), fst (snd (snd c)))"

definition call_node :: "call \<Rightarrow> addr" where
  "call_node c = snd (snd (snd c))"

fun register_all :: "nat \<Rightarrow> TypeRegistry \<Rightarrow> call list \<Rightarrow> TypeRegistry res" where
  "register_all n reg [] = Some (Inr reg)"
| "register_all n reg (c # calls) =
     bnd (register_type n (fst c) reg (fst (call_key c)) (snd (call_key c)) (call_node c))
       (\<lambda>(h1, reg1). register_all n reg1 calls)"

text \<open>The name line 207 gives to a key.\<close>

definition type_name :: "rkey \<Rightarrow> string" where
  "type_name k = fmt_otype (fst k) @ (if snd k then ''_snippet'' else [])"

text \<open>
  The invariant of the registry: the keys of \<open>types\<close> are distinct, and \<open>type_names\<close>
  holds, for the same keys in the same order, the name of each key.
\<close>

definition reg_ok :: "TypeRegistry \<Rightarrow> bool" where
  "reg_ok reg = (distinct (map fst (types reg))
                 \<and> type_names reg = map (\<lambda>e. (fst e, type_name (fst e))) (types reg))"

section \<open>Nodes as trees\<close>

text \<open>
  The value of a node: the tree of the node and the nodes below it. \<open>repr h a t\<close> says
  that the object at address \<open>a\<close> of the store \<open>h\<close>, with the objects its fields lead
  to, is the tree \<open>t\<close>: the same fields, the same keys in the same order.
\<close>

datatype node =
    VNode "string option" "lit option" bool "string option"
  | TNode string "(string \<times> node) list" bool "string option" bool "string option"
  | LNode "node option" bool

function (sequential) repr :: "heap \<Rightarrow> addr \<Rightarrow> node \<Rightarrow> bool"
and repr_attrs :: "heap \<Rightarrow> (string \<times> addr) list \<Rightarrow> (string \<times> node) list \<Rightarrow> bool"
and repr_opt :: "heap \<Rightarrow> addr option \<Rightarrow> node option \<Rightarrow> bool"
where
  "repr h a (VNode t v n k) = (rd h a = Some (ValueNode t v n k))"
| "repr h a (TNode ty ts n ot sn rf) =
     (case rd h a of
        Some (TypeNode ty' ats n' ot' sn' rf') \<Rightarrow>
          ty' = ty \<and> n' = n \<and> ot' = ot \<and> sn' = sn \<and> rf' = rf \<and> repr_attrs h ats ts
      | _ \<Rightarrow> False)"
| "repr h a (LNode et n) =
     (case rd h a of
        Some (ListNode e n') \<Rightarrow> n' = n \<and> repr_opt h e et
      | _ \<Rightarrow> False)"
| "repr_attrs h [] [] = True"
| "repr_attrs h ((k, a) # ats) ((k', t) # ts) = (k = k' \<and> repr h a t \<and> repr_attrs h ats ts)"
| "repr_attrs h ats ts = False"
| "repr_opt h None None = True"
| "repr_opt h (Some e) (Some t) = repr h e t"
| "repr_opt h e t = False"
  by pat_completeness auto
termination
  by (relation "measure
        (\<lambda>x. case x of
           Inl (h, a, t) \<Rightarrow> size t
         | Inr (Inl (h, ats, ts)) \<Rightarrow> size_list (size_prod (\<lambda>k. 0) size) ts
         | Inr (Inr (h, e, t)) \<Rightarrow> size_option size t)") auto

text \<open>
  The trees the data model describes: a scalar of unknown kind (no \<open>type\<close>) is
  nullable, as \<open>p_value_null\<close> builds it, and the keys of an attribute dictionary are
  distinct. What is below a list does not matter to \<open>ListNode.merge\<close>.
\<close>

fun ok :: "node \<Rightarrow> bool"
and ok_attrs :: "(string \<times> node) list \<Rightarrow> bool"
where
  "ok (VNode t v n k) = (t = None \<longrightarrow> n)"
| "ok (TNode ty ts n ot sn rf) = (distinct (map fst ts) \<and> ok_attrs ts)"
| "ok (LNode et n) = True"
| "ok_attrs [] = True"
| "ok_attrs ((k, t) # ts) = (ok t \<and> ok_attrs ts)"


section \<open>Properties of \<open>ValueNode.merge\<close>\<close>

text \<open>
  C2. The claim: merging two scalars of equal kind succeeds and the result's
  \<open>nullable\<close> is the OR of the two flags. The source returns \<open>self\<close> untouched when
  both types are known and equal: with \<open>self\<close> a non-nullable string and \<open>other\<close> a
  nullable string, the result is \<open>self\<close>, still not nullable. (\<open>TypeNode.merge\<close> and
  \<open>ListNode.merge\<close> do take the OR, at lines 113 and 166.)
\<close>

theorem ValueNode_merge_keeps_self_nullable:
  "ValueNode_merge
     [ValueNode (Some ''string'') (Some (LStr ''a'')) False None,
      ValueNode (Some ''string'') (Some (LStr ''b'')) True None] 0 1
   = Some (Inr ([ValueNode (Some ''string'') (Some (LStr ''a'')) False None,
                 ValueNode (Some ''string'') (Some (LStr ''b'')) True None], 0))"
  by (simp add: ValueNode_merge_def rd_def identity_check_def)

text \<open>
  The parser reaches that merge. In the document
  \<open>[{"otype": "t", "a": "x"}, {"otype": "t", "a": null, "a": "y"}]\<close> the second
  object's \<open>a\<close> is a nullable string (\<open>p_members_multiple\<close> merges the \<open>null\<close> into
  it); registering the second object merges it into the \<open>a\<close> of the first, and the
  schema has \<open>a\<close> as a string that is not nullable.
\<close>

lemma main_null_occurrence_not_nullable:
  "(case main 3 [] type_registry
       [JArray [JObject [(''otype'', JString ''t''), (''a'', JString ''x'')],
                JObject [(''otype'', JString ''t''), (''a'', JNull), (''a'', JString ''y'')]]] of
      Some (Inr (h, reg, out)) \<Rightarrow>
        rd h 5 = Some (ValueNode (Some ''string'') (Some (LStr ''y'')) True None)
        \<and> out = [(''t'',
              ODict [(''type'', OStr ''object''), (''otype'', OStr ''t''),
                     (''snippet'', OBool False),
                     (''attributes'',
                      ODict [(''a'', ODict [(''type'', OStr ''string'')]),
                             (''otype'', ODict [(''type'', OStr ''string'')])])])]
    | _ \<Rightarrow> False)"
  by code_simp

text \<open>
  Lines 77 to 80 are the check of the identity attributes: when the receiving scalar has
  a known type and the attribute name \<open>otype\<close> or \<open>snippet\<close> in its \<open>key\<close>, and both
  scalars carry literals that differ, the merge raises the value mismatch.
\<close>

lemma ValueNode_merge_identity_check_with_key:
  assumes "rd h self = Some (ValueNode (Some t) (Some v) n k)"
    and "k = Some ''otype'' \<or> k = Some ''snippet''"
    and "rd h other = Some (ValueNode t' (Some v') n' k')"
    and "py_ne v v'"
  shows "ValueNode_merge h self other = Some (Inl (ValueMismatch k v v'))"
  using assms by (auto simp: ValueNode_merge_def identity_check_def)

text \<open>
  C3. The claim: merging two scalars found under \<open>otype\<close> (or \<open>snippet\<close>) whose
  literals differ fails with a value mismatch. The source does not: no statement of it
  sets \<open>key\<close> (every \<open>p_value_\<close> action leaves the default \<open>None\<close>), so the test of
  line 77 is false for every scalar the parser builds and lines 78 to 80 never run. The
  object \<open>{"otype": "a", "otype": "b"}\<close> has two scalars under \<open>otype\<close> with the
  literals \<open>a\<close> and \<open>b\<close>; \<open>p_members_multiple\<close> merges them, the merge returns the
  scalar \<open>b\<close>, and the object is registered as the type \<open>b\<close> without any error.
\<close>

theorem otype_conflict_not_detected:
  "main 1 [] type_registry [JObject [(''otype'', JString ''a''), (''otype'', JString ''b'')]]
   = Some (Inr ([ValueNode (Some ''string'') (Some (LStr ''a'')) False None,
                 ValueNode (Some ''string'') (Some (LStr ''b'')) False None,
                 TypeNode ''object'' [(''otype'', 1)] False (Some ''b'') False None],
                \<lparr>types = [((Some ''b'', False), 2)],
                   type_names = [((Some ''b'', False), ''b'')]\<rparr>,
                [(''b'', ODict [(''type'', OStr ''object''), (''otype'', OStr ''b''),
                   (''snippet'', OBool False),
                   (''attributes'', ODict [(''otype'', ODict [(''type'', OStr ''string'')])])])]))"
  by code_simp

text \<open>
  The same at the merge itself: the two scalars as the parser builds them, with no
  \<open>key\<close>.
\<close>

lemma ValueNode_merge_no_key_no_mismatch:
  "ValueNode_merge
     [ValueNode (Some ''string'') (Some (LStr ''a'')) False None,
      ValueNode (Some ''string'') (Some (LStr ''b'')) False None] 1 0
   = Some (Inr ([ValueNode (Some ''string'') (Some (LStr ''a'')) False None,
                 ValueNode (Some ''string'') (Some (LStr ''b'')) False None], 1))"
  by (simp add: ValueNode_merge_def rd_def identity_check_def)

section \<open>Properties of \<open>ListNode.merge\<close>\<close>


text \<open>
  C1. The claim: the result's \<open>nullable\<close> is the OR of both, and a receiving list with
  no element type takes the element type of the other list. The first half holds
  (\<open>ListNode_merge_returns\<close>); the second does not: lines 169 and 170 are never reached.
  Here \<open>self\<close> is the list of an empty array and \<open>other\<close> a list of strings; after
  the merge \<open>self\<close> still has no element type.
\<close>

theorem ListNode_merge_keeps_absent_element_type:
  "ListNode_merge n
     [ListNode None False, ListNode (Some 2) False,
      ValueNode (Some ''string'') (Some (LStr ''a'')) False None] 0 1
   = Some (Inr ([ListNode None False, ListNode (Some 2) False,
                 ValueNode (Some ''string'') (Some (LStr ''a'')) False None], 0))"
  by (simp add: ListNode_merge_head_def is_not_ListNode_class_def rd_def)

section \<open>Properties of the registry's names\<close>

text \<open>
  C10. Output names are not unique across keys. The document
  \<open>[{"otype": "x_snippet"}, {"otype": "x", "snippet": true}]\<close>, parsed into the empty
  registry, leaves two entries, at \<open>("x_snippet", False)\<close> and \<open>("x", True)\<close>, both
  named \<open>x_snippet\<close>; the serialized schema has the one entry \<open>x_snippet\<close>, and it is
  the body of the entry iterated last (\<open>otype\<close> \<open>x\<close>, \<open>snippet\<close> true).
\<close>

theorem snippet_name_clash:
  "(case main 1 [] type_registry
       [JArray [JObject [(''otype'', JString ''x_snippet'')],
                JObject [(''otype'', JString ''x''), (''snippet'', JTrue)]]] of
      Some (Inr (h, reg, out)) \<Rightarrow>
        map fst (types reg) = [(Some ''x_snippet'', False), (Some ''x'', True)]
        \<and> type_names reg = [((Some ''x_snippet'', False), ''x_snippet''),
                             ((Some ''x'', True), ''x_snippet'')]
        \<and> out = [(''x_snippet'',
              ODict [(''type'', OStr ''object''), (''otype'', OStr ''x''),
                     (''snippet'', OBool True),
                     (''attributes'',
                      ODict [(''snippet'', ODict [(''type'', OStr ''bool'')]),
                             (''otype'', ODict [(''type'', OStr ''string'')])])])]
    | _ \<Rightarrow> False)"
  by code_simp

section \<open>Properties of the registry\<close>

lemma map_of_None_iff: "map_of d k = None \<longleftrightarrow> k \<notin> set (map fst d)"
  by (simp add: map_of_eq_None_iff)

lemma dict_set_append: "k \<notin> set (map fst d) \<Longrightarrow> dict_set d k v = d @ [(k, v)]"
  by (induction d) auto

lemma bnd_Inr: "bnd m f = Some (Inr y) \<Longrightarrow> \<exists>x. m = Some (Inr x) \<and> f x = Some (Inr y)"
  by (auto simp: bnd_def split: option.splits sum.splits)

lemma type_registry_ok: "reg_ok type_registry"
  by (simp add: reg_ok_def type_registry_def)

lemma register_type_existing:
  "map_of (types reg) (ot, sn) = Some e \<Longrightarrow>
   register_type n h reg ot sn a = bnd (merge n h e a) (\<lambda>(h1, r). Some (Inr (h1, reg)))"
  by (simp add: register_type_def)

lemma register_type_new:
  assumes "reg_ok reg" and "map_of (types reg) (ot, sn) = None"
  shows "register_type n h reg ot sn a
         = Some (Inr (h, reg\<lparr>types := types reg @ [((ot, sn), a)],
                           type_names := type_names reg @ [((ot, sn), type_name (ot, sn))]\<rparr>))"
proof -
  have k: "(ot, sn) \<notin> set (map fst (types reg))"
    using assms(2) by (simp add: map_of_None_iff)
  have "map fst (type_names reg) = map fst (types reg)"
    using assms(1) by (simp add: reg_ok_def comp_def)
  then have k': "(ot, sn) \<notin> set (map fst (type_names reg))" using k by simp
  show ?thesis
    using assms(2) by (simp add: register_type_def dict_set_append [OF k] dict_set_append [OF k'] type_name_def)
qed

lemma register_type_step:
  assumes "reg_ok reg" and "register_type n h reg ot sn a = Some (Inr (h', reg'))"
  shows "reg_ok reg' \<and> (\<exists>new. types reg' = types reg @ new
            \<and> set (map fst new) = {(ot, sn)} - set (map fst (types reg)))"
proof (cases "map_of (types reg) (ot, sn)")
  case None
  then have k: "(ot, sn) \<notin> set (map fst (types reg))" by (simp add: map_of_None_iff)
  from register_type_new [OF assms(1) None, of n h a] assms(2)
  have r: "reg' = reg\<lparr>types := types reg @ [((ot, sn), a)],
                           type_names := type_names reg @ [((ot, sn), type_name (ot, sn))]\<rparr>" by simp
  show ?thesis using assms(1) k by (auto simp: r reg_ok_def)
next
  case (Some e)
  then have k: "(ot, sn) \<in> set (map fst (types reg))"
    by (metis map_of_None_iff option.distinct(1))
  from assms(2) have "reg' = reg"
    by (auto simp: register_type_existing [OF Some] dest!: bnd_Inr)
  then show ?thesis using assms(1) k by auto
qed

lemma register_all_steps:
  assumes "reg_ok reg" and "register_all n reg calls = Some (Inr reg')"
  shows "reg_ok reg' \<and> (\<exists>new. types reg' = types reg @ new
            \<and> set (map fst new) = set (map call_key calls) - set (map fst (types reg)))"
  using assms
proof (induction calls arbitrary: reg)
  case Nil
  then show ?case by simp
next
  case (Cons c calls)
  from Cons.prems(2) obtain h1 reg1 where
    s1: "register_type n (fst c) reg (fst (call_key c)) (snd (call_key c)) (call_node c) = Some (Inr (h1, reg1))" and
    s2: "register_all n reg1 calls = Some (Inr reg')"
    by (auto dest!: bnd_Inr)
  from register_type_step [OF Cons.prems(1) s1] obtain new1 where
    ok1: "reg_ok reg1" and t1: "types reg1 = types reg @ new1"
    and n1: "set (map fst new1) = {call_key c} - set (map fst (types reg))" by auto
  from Cons.IH [OF ok1 s2] obtain new2 where
    ok2: "reg_ok reg'" and t2: "types reg' = types reg1 @ new2"
    and n2: "set (map fst new2) = set (map call_key calls) - set (map fst (types reg1))" by blast
  have "types reg' = types reg @ (new1 @ new2)" using t1 t2 by simp
  moreover have "set (map fst (new1 @ new2)) = set (map call_key (c # calls)) - set (map fst (types reg))"
    using n1 n2 t1 by auto
  ultimately show ?case using ok2 by blast
qed

lemma reg_ok_name:
  assumes "reg_ok reg" and "has_key (types reg) k"
  shows "map_of (type_names reg) k = Some (type_name k)"
proof -
  have "\<And>ns. ns = map (\<lambda>e. (fst e, type_name (fst e))) ts \<Longrightarrow> map_of ts k \<noteq> None
         \<Longrightarrow> map_of ns k = Some (type_name k)" for ts :: "(rkey \<times> addr) list"
    by (induction ts) (auto split: if_splits)
  then show ?thesis using assms by (simp add: reg_ok_def has_key_def)
qed

lemma register_all_same_key:
  assumes "calls \<noteq> []" and "\<forall>c \<in> set calls. call_key c = k"
    and "register_all n type_registry calls = Some (Inr reg)"
  shows "types reg = [(k, call_node (hd calls))] \<and> type_names reg = [(k, type_name k)]"
proof -
  obtain c cs where cs: "calls = c # cs" using assms(1) by (cases calls) auto
  have kc: "call_key c = k" using assms(2) cs by simp
  from assms(3) obtain h1 reg1 where
    s1: "register_type n (fst c) type_registry (fst k) (snd k) (call_node c) = Some (Inr (h1, reg1))" and
    s2: "register_all n reg1 cs = Some (Inr reg)"
    by (auto simp: cs kc dest!: bnd_Inr)
  have r1: "reg1 = \<lparr>types = [(k, call_node c)], type_names = [(k, type_name k)]\<rparr>"
    using s1 by (simp add: register_type_def type_registry_def type_name_def)
  then have ok1: "reg_ok reg1" by (simp add: reg_ok_def)
  from register_all_steps [OF ok1 s2] obtain new where
    ok: "reg_ok reg" and t: "types reg = types reg1 @ new"
    and n: "set (map fst new) = set (map call_key cs) - set (map fst (types reg1))" by blast
  have "set (map fst new) = {}" using n assms(2) by (auto simp: cs r1)
  then have "new = []" by simp
  then have "types reg = [(k, call_node c)]" using t r1 by simp
  then show ?thesis using ok by (simp add: cs reg_ok_def)
qed

lemma to_dict_single:
  assumes "types reg = [(k, a)]" and "type_names reg = [(k, nm)]"
    and "to_dict m h reg = Some (Inr out)"
  shows "map fst out = [nm]"
  using assms by (auto simp: to_dict_def dest!: bnd_Inr)

lemma get_ref_eq:
  "get_ref reg ot =
     (if has_key (types reg) (ot, False) then map_of (type_names reg) (ot, False)
      else if has_key (types reg) (ot, True) then map_of (type_names reg) (ot, True)
      else None)"
  by (simp add: get_ref_def get_preferred_snippet_def)

text \<open>
  C4. \<open>register_type\<close> at a key that has an entry merges the node into that entry in the
  store and leaves the registry's two dictionaries as they are; what the merge raises,
  \<open>register_type\<close> raises. At a key that has no entry it adds the node and the key's
  name (\<open>otype\<close>, with \<open>_snippet\<close> appended when \<open>snippet\<close> is true) at the end. So
  after every sequence of calls the keys are distinct and each has its name (\<open>reg_ok\<close>),
  the entries present before are still there, in place, and the new keys are those of
  the calls; and registering one key any number of times, from the empty registry,
  leaves exactly one entry, which serializes to exactly one output entry.
\<close>

theorem register_type_one_entry_per_key:
  "(map_of (types regA) (otA, snA) = Some e \<longrightarrow>
      register_type nA hA regA otA snA aA =
        (case merge nA hA e aA of
           None \<Rightarrow> None
         | Some (Inl err) \<Rightarrow> Some (Inl err)
         | Some (Inr (h1, r)) \<Rightarrow> Some (Inr (h1, regA))))
   \<and> (reg_ok regB \<and> map_of (types regB) (otB, snB) = None \<longrightarrow>
      register_type nB hB regB otB snB aB =
        Some (Inr (hB, regB\<lparr>types := types regB @ [((otB, snB), aB)],
                          type_names := type_names regB @
                            [((otB, snB), fmt_otype otB @ (if snB then ''_snippet'' else []))]\<rparr>)))
   \<and> (reg_ok regC \<and> register_all n regC calls = Some (Inr regD) \<longrightarrow>
      reg_ok regD \<and>
      (\<exists>new. types regD = types regC @ new
          \<and> set (map fst new) = set (map call_key calls) - set (map fst (types regC))))
   \<and> (callsE \<noteq> [] \<and> (\<forall>c \<in> set callsE. call_key c = k)
        \<and> register_all nE type_registry callsE = Some (Inr regE) \<longrightarrow>
      types regE = [(k, call_node (hd callsE))] \<and> type_names regE = [(k, type_name k)]
      \<and> (\<forall>m h out. to_dict m h regE = Some (Inr out) \<longrightarrow> map fst out = [type_name k]))"
proof (intro conjI impI)
  assume "map_of (types regA) (otA, snA) = Some e"
  then show "register_type nA hA regA otA snA aA =
        (case merge nA hA e aA of
           None \<Rightarrow> None
         | Some (Inl err) \<Rightarrow> Some (Inl err)
         | Some (Inr (h1, r)) \<Rightarrow> Some (Inr (h1, regA)))"
    by (simp add: register_type_def bnd_def split: option.splits sum.splits)
next
  assume "reg_ok regB \<and> map_of (types regB) (otB, snB) = None"
  then show "register_type nB hB regB otB snB aB =
        Some (Inr (hB, regB\<lparr>types := types regB @ [((otB, snB), aB)],
                          type_names := type_names regB @
                            [((otB, snB), fmt_otype otB @ (if snB then ''_snippet'' else []))]\<rparr>))"
    using register_type_new [of regB otB snB nB hB aB] by (simp add: type_name_def)
next
  assume a: "reg_ok regC \<and> register_all n regC calls = Some (Inr regD)"
  then show "reg_ok regD" using register_all_steps by blast
  from a show "\<exists>new. types regD = types regC @ new
          \<and> set (map fst new) = set (map call_key calls) - set (map fst (types regC))"
    using register_all_steps by blast
next
  assume a: "callsE \<noteq> [] \<and> (\<forall>c \<in> set callsE. call_key c = k)
        \<and> register_all nE type_registry callsE = Some (Inr regE)"
  then have s: "types regE = [(k, call_node (hd callsE))] \<and> type_names regE = [(k, type_name k)]"
    using register_all_same_key [of callsE k nE regE] by blast
  from s show "types regE = [(k, call_node (hd callsE))]" by simp
  from s show "type_names regE = [(k, type_name k)]" by simp
  from s show "\<forall>m h out. to_dict m h regE = Some (Inr out) \<longrightarrow> map fst out = [type_name k]"
    using to_dict_single by blast
qed

theorem register_type_one_entry_per_key_witness:
  "register_type 2
      [TypeNode ''object'' [] False (Some ''t'') False None,
       TypeNode ''object'' [] False (Some ''t'') False None]
      \<lparr>types = [((Some ''t'', False), 0)], type_names = [((Some ''t'', False), ''t'')]\<rparr>
      (Some ''t'') False 1
    = Some (Inr ([TypeNode ''object'' [] False (Some ''t'') False None,
                  TypeNode ''object'' [] False (Some ''t'') False None],
                 \<lparr>types = [((Some ''t'', False), 0)], type_names = [((Some ''t'', False), ''t'')]\<rparr>))
   \<and> register_type 0 [TypeNode ''object'' [] False (Some ''t'') True None] type_registry
        (Some ''t'') True 0
      = Some (Inr ([TypeNode ''object'' [] False (Some ''t'') True None],
                   \<lparr>types = [((Some ''t'', True), 0)],
                      type_names = [((Some ''t'', True), ''t_snippet'')]\<rparr>))
   \<and> register_all 2 type_registry
        [([TypeNode ''object'' [] False (Some ''t'') False None], Some ''t'', False, 0),
         ([TypeNode ''object'' [] False (Some ''t'') False None,
           TypeNode ''object'' [] False (Some ''t'') False None], Some ''t'', False, 1)]
      = Some (Inr \<lparr>types = [((Some ''t'', False), 0)],
                    type_names = [((Some ''t'', False), ''t'')]\<rparr>)
   \<and> reg_ok \<lparr>types = [((Some ''t'', False), 0)], type_names = [((Some ''t'', False), ''t'')]\<rparr>
   \<and> (case to_dict 0 [TypeNode ''object'' [] False (Some ''t'') False None,
                         TypeNode ''object'' [] False (Some ''t'') False None]
              \<lparr>types = [((Some ''t'', False), 0)],
                 type_names = [((Some ''t'', False), ''t'')]\<rparr> of
         Some (Inr out) \<Rightarrow> map fst out = [''t'']
       | _ \<Rightarrow> False)"
proof -
  let ?h1 = "[TypeNode ''object'' [] False (Some ''t'') False None]"
  let ?h2 = "[TypeNode ''object'' [] False (Some ''t'') False None,
              TypeNode ''object'' [] False (Some ''t'') False None]"
  let ?hs = "[TypeNode ''object'' [] False (Some ''t'') True None]"
  let ?r = "\<lparr>types = [((Some ''t'', False), 0)], type_names = [((Some ''t'', False), ''t'')]\<rparr>"
  let ?calls = "[(?h1, Some ''t'', False, 0), (?h2, Some ''t'', False, 1)]"
  have m: "merge 2 ?h2 0 1 = Some (Inr (?h2, 0))" by code_simp
  have ra: "register_all 2 type_registry ?calls = Some (Inr ?r)" by code_simp
  have ok0: "reg_ok type_registry" by (rule type_registry_ok)
  have none: "map_of (types type_registry) (Some ''t'', True) = None"
    by (simp add: type_registry_def)
  have ks: "?calls \<noteq> [] \<and> (\<forall>c \<in> set ?calls. call_key c = (Some ''t'', False))"
    by (simp add: call_key_def)
  note t = register_type_one_entry_per_key [where regA = ?r and otA = "Some ''t''" and snA = False
      and e = 0 and nA = 2 and hA = ?h2 and aA = 1
      and regB = type_registry and otB = "Some ''t''" and snB = True and nB = 0 and hB = ?hs
      and aB = 0 and regC = type_registry and n = 2 and calls = ?calls and regD = ?r
      and callsE = ?calls and k = "(Some ''t'', False)" and nE = 2 and regE = ?r]
  note tA = t [THEN conjunct1, THEN mp]
  note tB = t [THEN conjunct2, THEN conjunct1, THEN mp]
  note tC = t [THEN conjunct2, THEN conjunct2, THEN conjunct1, THEN mp]
  note tE = t [THEN conjunct2, THEN conjunct2, THEN conjunct2, THEN mp]
  have "map_of (types ?r) (Some ''t'', False) = Some 0" by simp
  from tA [OF this] have 1: "register_type 2 ?h2 ?r (Some ''t'') False 1 = Some (Inr (?h2, ?r))"
    by (simp only: m option.case sum.case prod.case)
  from tB [OF conjI [OF ok0 none]]
  have 2: "register_type 0 ?hs type_registry (Some ''t'') True 0
      = Some (Inr (?hs, \<lparr>types = [((Some ''t'', True), 0)],
                      type_names = [((Some ''t'', True), ''t_snippet'')]\<rparr>))"
    by (simp add: type_registry_def fmt_otype_def)
  from tC [OF conjI [OF ok0 ra]] have 3: "reg_ok ?r" by (rule conjunct1)
  note tE' = tE [OF conjI [OF conjunct1 [OF ks] conjI [OF conjunct2 [OF ks] ra]]]
  from tE' [THEN conjunct2, THEN conjunct2]
  have 4: "\<forall>m h out. to_dict m h ?r = Some (Inr out) \<longrightarrow> map fst out = [type_name (Some ''t'', False)]"
    .
  then have 5: "\<forall>m h out. to_dict m h ?r = Some (Inr out) \<longrightarrow> map fst out = [''t'']"
    by (simp add: type_name_def fmt_otype_def)
  have td: "to_dict 0 ?h2 ?r
      = Some (Inr [(''t'', ODict [(''type'', OStr ''object''), (''otype'', OStr ''t''),
                                  (''snippet'', OBool False)])])"
    by code_simp
  from 5 td have "map fst [(''t'', ODict [(''type'', OStr ''object''), (''otype'', OStr ''t''),
                                  (''snippet'', OBool False)])] = [''t'']"
    by blast
  then have 6: "(case to_dict 0 ?h2 ?r of Some (Inr out) \<Rightarrow> map fst out = [''t''] | _ \<Rightarrow> False)"
    by (simp only: td option.case sum.case)
  from 1 2 ra 3 6 show ?thesis by blast
qed

text \<open>
  C6. \<open>get_ref\<close> returns the name stored for \<open>(otype, False)\<close> when \<open>types\<close> has that
  key, else the name stored for \<open>(otype, True)\<close> when \<open>types\<close> has that key, else
  \<open>None\<close>. In a registry built by \<open>register_type\<close> from the empty one, once both
  variants of an identifier are registered the result is the identifier itself, not the
  name with \<open>_snippet\<close>.
\<close>

theorem get_ref_prefers_full:
  "get_ref reg ot =
     (if has_key (types reg) (ot, False) then map_of (type_names reg) (ot, False)
      else if has_key (types reg) (ot, True) then map_of (type_names reg) (ot, True)
      else None)
   \<and> (register_all n type_registry calls = Some (Inr reg')
        \<and> has_key (types reg') (ot', False) \<and> has_key (types reg') (ot', True) \<longrightarrow>
      get_ref reg' ot' = Some (fmt_otype ot')
      \<and> get_ref reg' ot' \<noteq> Some (fmt_otype ot' @ ''_snippet''))"
proof (intro conjI impI)
  show "get_ref reg ot =
     (if has_key (types reg) (ot, False) then map_of (type_names reg) (ot, False)
      else if has_key (types reg) (ot, True) then map_of (type_names reg) (ot, True)
      else None)"
    by (rule get_ref_eq)
next
  assume a: "register_all n type_registry calls = Some (Inr reg')
        \<and> has_key (types reg') (ot', False) \<and> has_key (types reg') (ot', True)"
  then have "reg_ok reg'" using register_all_steps [OF type_registry_ok] by blast
  with a have "map_of (type_names reg') (ot', False) = Some (type_name (ot', False))"
    using reg_ok_name by blast
  with a show g: "get_ref reg' ot' = Some (fmt_otype ot')"
    by (simp add: get_ref_eq type_name_def)
  show "get_ref reg' ot' \<noteq> Some (fmt_otype ot' @ ''_snippet'')"
    by (simp add: g)
qed

theorem get_ref_prefers_full_witness:
  "get_ref \<lparr>types = [((Some ''language'', True), 0), ((Some ''language'', False), 1)],
            type_names = [((Some ''language'', True), ''language_snippet''),
                          ((Some ''language'', False), ''language'')]\<rparr> (Some ''language'')
   = Some ''language''"
proof -
  let ?h = "[TypeNode ''object'' [] False (Some ''language'') True None,
             TypeNode ''object'' [] False (Some ''language'') False None]"
  let ?r = "\<lparr>types = [((Some ''language'', True), 0), ((Some ''language'', False), 1)],
            type_names = [((Some ''language'', True), ''language_snippet''),
                          ((Some ''language'', False), ''language'')]\<rparr>"
  let ?calls = "[(?h, Some ''language'', True, 0), (?h, Some ''language'', False, 1)]"
  have ra: "register_all 0 type_registry ?calls = Some (Inr ?r)" by code_simp
  have k1: "has_key (types ?r) (Some ''language'', False)" by (simp add: has_key_def)
  have k2: "has_key (types ?r) (Some ''language'', True)" by (simp add: has_key_def)
  from get_ref_prefers_full [where n = 0 and calls = ?calls and reg' = ?r
      and ot' = "Some ''language''"] ra k1 k2
  show ?thesis by (simp add: fmt_otype_def)
qed

section \<open>Properties of the grammar's actions\<close>









section \<open>Properties of the run\<close>





section \<open>Merging a node with itself\<close>












text \<open>
  The parser builds a node that holds itself. In \<open>{"otype": "t", "b": {"otype": "t"}}\<close>
  the inner object is registered first and is the entry of \<open>t\<close>; \<open>p_member\<close> clears
  its attributes; the outer object, of the same key, is then merged into the entry, which
  takes the outer object's attribute \<open>b\<close>: the entry itself. The entry is at address 2
  of the store the parser leaves.
\<close>

lemma parser_builds_cyclic_entry:
  "value_sem 1 [] type_registry
     (JObject [(''otype'', JString ''t''), (''b'', JObject [(''otype'', JString ''t'')])])
   = Some (Inr ([ValueNode (Some ''string'') (Some (LStr ''t'')) True None,
                 ValueNode (Some ''string'') (Some (LStr ''t'')) False None,
                 TypeNode ''object'' [(''b'', 2), (''otype'', 0)] True (Some ''t'') False
                   (Some ''t''),
                 TypeNode ''object'' [(''b'', 2), (''otype'', 0)] False (Some ''t'') False
                   None],
                \<lparr>types = [((Some ''t'', False), 2)],
                   type_names = [((Some ''t'', False), ''t'')]\<rparr>, 3))"
  by code_simp




section \<open>The loop over a dictionary that a nested merge changes\<close>

text \<open>
  In the store below the node at 0 has the attribute \<open>a\<close>, the node at 1, which is
  also the \<open>other\<close> of the merge. The loop over the items of node 1 merges node 1 with
  its own attribute \<open>a\<close> (node 2), which adds the key \<open>n\<close> to node 1; the iterator
  then finds the dictionary of node 1 changed in size, and the source raises
  \<open>RuntimeError\<close>.
\<close>

lemma merge_attributes_size_changed:
  "merge 5
     [TypeNode ''object'' [(''a'', 1)] False None False None,
      TypeNode ''object'' [(''a'', 2)] False None False None,
      TypeNode ''object'' [(''n'', 3)] False None False None,
      ValueNode (Some ''int'') (Some (LInt 1)) False None] 0 1
   = Some (Inl RuntimeError)"
  by code_simp

end
